theory Spec2Isabelle
  imports Complex_Main "HOL-Library.AList"
begin

section \<open>Data frames\<close>

text \<open>
  \<open>detect_anomalies\<close> (src/src/model.py) works on a pandas DataFrame. Only three
  operations of the DataFrame are used: the \<open>empty\<close> property, reading columns
  (\<open>df[['ventes']]\<close>, \<open>df['anomaly_score']\<close>) and assigning a column
  (\<open>df[name] = values\<close>). A cell holds one of the scalar values that occur: a float
  (finite, NaN or an infinity), an integer, a boolean or a string.
\<close>

datatype cell = FloatV real | NaNV | InfV bool | IntV int | BoolV bool | StrV string

text \<open>
  A frame has an index of \<open>nrows\<close> rows and an ordered list of named columns. Column
  labels are taken to be unique, so a label is looked up with \<open>map_of\<close>.
\<close>

record frame =
  nrows :: nat
  cols :: "(string \<times> cell list) list"

datatype exn = KeyError | ValueError | InvalidParameterError | LibraryError string

text \<open>\<open>df.empty\<close>: true when either axis has length zero.\<close>

definition df_empty :: "frame \<Rightarrow> bool" where
  "df_empty df = (nrows df = 0 \<or> cols df = [])"

text \<open>\<open>df[[n1, ..., nk]]\<close>: a new frame with the listed columns; KeyError when one is missing.\<close>

fun select_cols :: "string list \<Rightarrow> (string \<times> cell list) list \<Rightarrow> exn + (string \<times> cell list) list" where
  "select_cols [] al = Inr []"
| "select_cols (n # ns) al =
     (case map_of al n of
        None \<Rightarrow> Inl KeyError
      | Some v \<Rightarrow> (case select_cols ns al of Inl e \<Rightarrow> Inl e | Inr r \<Rightarrow> Inr ((n, v) # r)))"

definition getitem_list :: "string list \<Rightarrow> frame \<Rightarrow> exn + frame" where
  "getitem_list names df =
     (case select_cols names (cols df) of
        Inl e \<Rightarrow> Inl e
      | Inr cs \<Rightarrow> Inr \<lparr>nrows = nrows df, cols = cs\<rparr>)"

text \<open>\<open>df[name]\<close>: the cells of one column; KeyError when it is missing.\<close>

definition getitem :: "string \<Rightarrow> frame \<Rightarrow> exn + cell list" where
  "getitem name df = (case map_of (cols df) name of None \<Rightarrow> Inl KeyError | Some v \<Rightarrow> Inr v)"

text \<open>
  \<open>df[name] = values\<close>: an existing column is replaced where it stands, a new one is
  appended after the others; pandas raises ValueError when the number of values is not the
  length of the index.
\<close>

definition setitem :: "string \<Rightarrow> cell list \<Rightarrow> frame \<Rightarrow> exn + frame" where
  "setitem name vals df =
     (if length vals \<noteq> nrows df then Inl ValueError
      else Inr (df\<lparr>cols := AList.update name vals (cols df)\<rparr>))"

text \<open>The test \<open>x == -1\<close> of the lambda on line 25, on a cell.\<close>

fun eq_minus_one :: "cell \<Rightarrow> bool" where
  "eq_minus_one (IntV i) = (i = - 1)"
| "eq_minus_one (FloatV x) = (x = - 1)"
| "eq_minus_one _ = False"

section \<open>The library call\<close>

text \<open>
  \<open>IsolationForest(contamination=contamination, random_state=42)\<close> only records its
  two arguments; \<open>model.fit_predict(X)\<close> is the one call into scikit-learn. The library
  is not part of the program, so it is a parameter of the model: a function of the ambient
  random state of the process (which the library consults when no seed is given), of the
  recorded parameters and of the frame \<open>X\<close>, that either raises or returns one integer
  label per row.
\<close>

record isolation_forest =
  contamination :: real
  random_state :: "int option"

type_synonym 'g library = "'g \<Rightarrow> isolation_forest \<Rightarrow> frame \<Rightarrow> exn + int list"

section \<open>detect_anomalies\<close>

text \<open>
  The caller's DataFrame is a mutable object that \<open>detect_anomalies\<close> updates in place
  and returns. The model therefore takes a store of frames and a reference into it, and
  returns the outcome (an exception or the returned reference) together with the store as
  the call leaves it.
\<close>

type_synonym ref = nat
type_synonym heap = "ref \<Rightarrow> frame"

definition detect_anomalies ::
  "'g library \<Rightarrow> 'g \<Rightarrow> heap \<Rightarrow> ref \<Rightarrow> real \<Rightarrow> (exn + ref) \<times> heap" where
  "detect_anomalies fit_predict g h df c =
     (if df_empty (h df) then (Inr df, h)
      else
        let model = \<lparr>contamination = c, random_state = Some 42\<rparr> in
        case getitem_list [''ventes''] (h df) of
          Inl e \<Rightarrow> (Inl e, h)
        | Inr X \<Rightarrow>
            (case fit_predict g model X of
               Inl e \<Rightarrow> (Inl e, h)
             | Inr labels \<Rightarrow>
                 (case setitem ''anomaly_score'' (map IntV labels) (h df) of
                    Inl e \<Rightarrow> (Inl e, h)
                  | Inr f1 \<Rightarrow>
                      let h1 = h(df := f1) in
                      (case getitem ''anomaly_score'' (h1 df) of
                         Inl e \<Rightarrow> (Inl e, h1)
                       | Inr s \<Rightarrow>
                           (case setitem ''anomaly'' (map (\<lambda>x. BoolV (eq_minus_one x)) s) (h1 df) of
                              Inl e \<Rightarrow> (Inl e, h1)
                            | Inr f2 \<Rightarrow> (Inr df, h1(df := f2)))))))"

text \<open>
  Lines 21 and 25 together, on a frame and the labels the library returned: the column
  \<open>anomaly_score\<close> receives the labels and the column \<open>anomaly\<close> the test
  \<open>label == -1\<close>. \<open>detect_nonempty\<close> below proves that this is what the two
  assignments of \<open>detect_anomalies\<close> amount to.
\<close>

definition annotate :: "int list \<Rightarrow> frame \<Rightarrow> frame" where
  "annotate labels f =
     f\<lparr>cols := AList.update ''anomaly'' (map (\<lambda>l. BoolV (l = - 1)) labels)
                 (AList.update ''anomaly_score'' (map IntV labels) (cols f))\<rparr>"

section \<open>Reading the result\<close>

text \<open>
  The scores of a call are the cells of the column \<open>anomaly_score\<close> of the frame it
  returns, its flags the cells of the column \<open>anomaly\<close>; a call that raises has none.
\<close>

definition column_of :: "string \<Rightarrow> (exn + ref) \<times> heap \<Rightarrow> cell list" where
  "column_of name res =
     (case fst res of
        Inl e \<Rightarrow> []
      | Inr r \<Rightarrow> (case getitem name (snd res r) of Inl e \<Rightarrow> [] | Inr s \<Rightarrow> s))"

definition scores_of :: "(exn + ref) \<times> heap \<Rightarrow> cell list" where
  "scores_of res = column_of ''anomaly_score'' res"

definition flags_of :: "(exn + ref) \<times> heap \<Rightarrow> cell list" where
  "flags_of res = column_of ''anomaly'' res"

text \<open>The number a cell stands for, when it is a finite number.\<close>

fun cell_real :: "cell \<Rightarrow> real option" where
  "cell_real (FloatV x) = Some x"
| "cell_real (IntV i) = Some (real_of_int i)"
| "cell_real _ = None"

definition score_in_unit :: "cell \<Rightarrow> bool" where
  "score_in_unit v = (case cell_real v of None \<Rightarrow> False | Some x \<Rightarrow> 0 \<le> x \<and> x \<le> 1)"

definition score_is_half :: "cell \<Rightarrow> bool" where
  "score_is_half v = (cell_real v = Some (1 / 2))"

definition is_label :: "cell \<Rightarrow> bool" where
  "is_label v = (v = IntV (- 1) \<or> v = IntV 1)"

section \<open>What the program relies on from the library\<close>

text \<open>
  The labelling the source states on lines 11 and 24: \<open>-1\<close> is an anomaly, \<open>1\<close> is normal.
\<close>

definition labels_pm_one :: "'g library \<Rightarrow> bool" where
  "labels_pm_one lib = (\<forall>g m X ls. lib g m X = Inr ls \<longrightarrow> set ls \<subseteq> {- 1, 1})"

text \<open>A seeded model does not consult the ambient random state.\<close>

definition seeded_deterministic :: "'g library \<Rightarrow> bool" where
  "seeded_deterministic lib =
     (\<forall>g g' c s X. lib g \<lparr>contamination = c, random_state = Some s\<rparr> X
                  = lib g' \<lparr>contamination = c, random_state = Some s\<rparr> X)"

text \<open>The library validates the contamination parameter when fitting.\<close>

definition validates_contamination :: "'g library \<Rightarrow> bool" where
  "validates_contamination lib =
     (\<forall>g m X. \<not> (0 < contamination m \<and> contamination m \<le> 1 / 2)
               \<longrightarrow> lib g m X = Inl InvalidParameterError)"

section \<open>A stand-in library and sample frames\<close>

text \<open>
  To run the program on concrete frames a small stand-in for the library is used. It
  rejects a contamination outside \<open>(0, 0.5]\<close>; with a seed it labels as outliers the
  float cells of the first column of \<open>X\<close> that lie strictly above a cutoff; without a
  seed its labels follow the ambient state, here a single bit.
\<close>

fun label_above :: "real \<Rightarrow> cell \<Rightarrow> int" where
  "label_above thr (FloatV x) = (if thr < x then - 1 else 1)"
| "label_above thr _ = 1"

definition cutoff_library :: "real \<Rightarrow> bool library" where
  "cutoff_library thr g m X =
     (if \<not> (0 < contamination m \<and> contamination m \<le> 1 / 2) then Inl InvalidParameterError
      else case random_state m of
             None \<Rightarrow> Inr (replicate (nrows X) (if g then - 1 else 1))
           | Some s \<Rightarrow>
               (case cols X of
                  [] \<Rightarrow> Inr (replicate (nrows X) 1)
                | (n, vs) # rest \<Rightarrow> Inr (map (label_above thr) vs)))"

definition sales :: "real list \<Rightarrow> frame" where
  "sales xs = \<lparr>nrows = length xs, cols = [(''ventes'', map FloatV xs)]\<rparr>"

definition store_of :: "frame \<Rightarrow> heap" where
  "store_of f = (\<lambda>r. f)"

text \<open>
  Three stores, and the frame each holds at reference \<open>0\<close> once the program has run
  on it with the stand-in library of cutoff 500 and contamination 0.05.
\<close>

definition three :: heap where
  "three = store_of (sales [100, 100, 1000])"

definition three_done :: frame where
  "three_done =
     \<lparr>nrows = 3,
      cols = [(''ventes'', [FloatV 100, FloatV 100, FloatV 1000]),
              (''anomaly_score'', [IntV 1, IntV 1, IntV (- 1)]),
              (''anomaly'', [BoolV False, BoolV False, BoolV True])]\<rparr>"

definition pair :: heap where
  "pair = store_of (sales [100, 100])"

definition pair_done :: frame where
  "pair_done =
     \<lparr>nrows = 2,
      cols = [(''ventes'', [FloatV 100, FloatV 100]),
              (''anomaly_score'', [IntV 1, IntV 1]),
              (''anomaly'', [BoolV False, BoolV False])]\<rparr>"

definition single :: heap where
  "single = store_of (sales [100])"

definition single_done :: frame where
  "single_done =
     \<lparr>nrows = 1,
      cols = [(''ventes'', [FloatV 100]),
              (''anomaly_score'', [IntV 1]),
              (''anomaly'', [BoolV False])]\<rparr>"

section \<open>The run of the program, step by step\<close>

lemma getitem_list_ventes:
  "getitem_list [''ventes''] f =
     (case getitem ''ventes'' f of
        Inl e \<Rightarrow> Inl e
      | Inr v \<Rightarrow> Inr \<lparr>nrows = nrows f, cols = [(''ventes'', v)]\<rparr>)"
  by (simp add: getitem_list_def getitem_def split: option.splits)

text \<open>
  On a frame that is not empty the program fails with KeyError when there is no column
  \<open>ventes\<close>, with the library's exception when \<open>fit_predict\<close> raises, and with
  ValueError when the labels do not fit the index; each time before the frame is touched.
  Otherwise both columns are assigned: once the first assignment has succeeded, the read
  on line 25 and the second assignment cannot fail.
\<close>

lemma detect_nonempty:
  assumes "\<not> df_empty (h df)"
  shows "detect_anomalies lib g h df c =
     (case getitem_list [''ventes''] (h df) of
        Inl e \<Rightarrow> (Inl e, h)
      | Inr X \<Rightarrow>
         (case lib g \<lparr>contamination = c, random_state = Some 42\<rparr> X of
            Inl e \<Rightarrow> (Inl e, h)
          | Inr labels \<Rightarrow>
              if length labels \<noteq> nrows (h df) then (Inl ValueError, h)
              else (Inr df, h(df := annotate labels (h df)))))"
  using assms
  by (auto simp: detect_anomalies_def Let_def setitem_def getitem_def update_conv' comp_def
        annotate_def split: sum.splits)

lemma detect_success:
  assumes "\<not> df_empty (h df)" and "detect_anomalies lib g h df c = (Inr r, h')"
  shows "\<exists>v labels. getitem ''ventes'' (h df) = Inr v
           \<and> lib g \<lparr>contamination = c, random_state = Some 42\<rparr>
                  \<lparr>nrows = nrows (h df), cols = [(''ventes'', v)]\<rparr> = Inr labels
           \<and> length labels = nrows (h df)
           \<and> r = df \<and> h' = h(df := annotate labels (h df))"
  using assms(2) unfolding detect_nonempty [of h df, OF assms(1)] getitem_list_ventes
  by (auto split: sum.splits if_splits)

lemma detect_failure:
  assumes "detect_anomalies lib g h df c = (Inl e, h')"
  shows "h' = h"
proof (cases "df_empty (h df)")
  case True
  with assms show ?thesis by (simp add: detect_anomalies_def)
next
  case False
  show ?thesis
    using assms unfolding detect_nonempty [of h df, OF False]
    by (auto split: sum.splits if_splits)
qed

subsection \<open>The two assigned columns\<close>

lemma annotate_nrows: "nrows (annotate labels f) = nrows f"
  by (simp add: annotate_def)

lemma annotate_scores: "getitem ''anomaly_score'' (annotate labels f) = Inr (map IntV labels)"
  by (simp add: annotate_def getitem_def update_conv')

lemma annotate_flags:
  "getitem ''anomaly'' (annotate labels f) = Inr (map (\<lambda>l. BoolV (l = - 1)) labels)"
  by (simp add: annotate_def getitem_def update_conv')

lemma annotate_other:
  "name \<noteq> ''anomaly_score'' \<Longrightarrow> name \<noteq> ''anomaly'' \<Longrightarrow>
   map_of (cols (annotate labels f)) name = map_of (cols f) name"
  by (simp add: annotate_def update_conv')

lemma annotate_ventes: "getitem ''ventes'' (annotate labels f) = getitem ''ventes'' f"
  by (simp add: getitem_def annotate_other)

lemma annotate_not_empty: "\<not> df_empty f \<Longrightarrow> \<not> df_empty (annotate labels f)"
  by (simp add: df_empty_def annotate_def)

lemma annotate_idem: "annotate labels (annotate labels f) = annotate labels f"
proof -
  let ?S = "map IntV labels" and ?B = "map (\<lambda>l. BoolV (l = - 1)) labels"
  let ?U = "AList.update ''anomaly'' ?B (AList.update ''anomaly_score'' ?S (cols f))"
  have 1: "AList.update ''anomaly_score'' ?S ?U = ?U"
    by (rule update_triv) (simp add: update_conv')
  have 2: "AList.update ''anomaly'' ?B ?U = ?U"
    by (rule update_triv) (simp add: update_conv')
  show ?thesis by (simp add: annotate_def 1 2)
qed

lemma scores_of_annotate:
  "scores_of (Inr df, h(df := annotate labels f)) = map IntV labels"
  by (simp add: scores_of_def column_of_def annotate_scores)

lemma flags_of_annotate:
  "flags_of (Inr df, h(df := annotate labels f)) = map (\<lambda>l. BoolV (l = - 1)) labels"
  by (simp add: flags_of_def column_of_def annotate_flags)

lemma minus_one_not_in_unit: "\<not> score_in_unit (IntV (- 1))"
  by (simp add: score_in_unit_def)

text \<open>
  The converse: when the frame is not empty, has a column \<open>ventes\<close>, and the library
  returns as many labels as there are rows, the call succeeds.
\<close>

lemma detect_given_labels:
  assumes "\<not> df_empty (h df)" and "getitem ''ventes'' (h df) = Inr v"
    and "lib g \<lparr>contamination = c, random_state = Some 42\<rparr>
           \<lparr>nrows = nrows (h df), cols = [(''ventes'', v)]\<rparr> = Inr labels"
    and "length labels = nrows (h df)"
  shows "detect_anomalies lib g h df c = (Inr df, h(df := annotate labels (h df)))"
  unfolding detect_nonempty [of h df, OF assms(1)] getitem_list_ventes
  by (simp add: assms)

text \<open>A seeded model gives the same answers under every ambient state.\<close>

lemma seeded_library_eq:
  assumes "seeded_deterministic lib"
  shows "lib g \<lparr>contamination = c, random_state = Some s\<rparr>
       = lib g' \<lparr>contamination = c, random_state = Some s\<rparr>"
  using assms unfolding seeded_deterministic_def by (intro ext) blast

subsection \<open>The stand-in library and the sample runs\<close>

lemma label_above_pm: "label_above thr v = - 1 \<or> label_above thr v = 1"
  by (cases v) auto

lemma cutoff_library_labels: "labels_pm_one (cutoff_library thr)"
  using label_above_pm
  by (auto simp: labels_pm_one_def cutoff_library_def split: if_splits option.splits list.splits)

lemma cutoff_library_seeded: "seeded_deterministic (cutoff_library thr)"
  by (simp add: seeded_deterministic_def cutoff_library_def)

lemma cutoff_library_validates: "validates_contamination (cutoff_library thr)"
  by (simp add: validates_contamination_def cutoff_library_def)

text \<open>Without a seed the stand-in does depend on the ambient state.\<close>

lemma cutoff_library_unseeded:
  "cutoff_library 500 False \<lparr>contamination = 1 / 20, random_state = None\<rparr> (sales [100])
   \<noteq> cutoff_library 500 True \<lparr>contamination = 1 / 20, random_state = None\<rparr> (sales [100])"
  by (simp add: cutoff_library_def sales_def)

lemma run_three:
  "detect_anomalies (cutoff_library 500) g three 0 (1 / 20) = (Inr 0, three(0 := three_done))"
  by (simp add: detect_anomalies_def three_def three_done_def store_of_def sales_def df_empty_def
      getitem_list_def getitem_def setitem_def cutoff_library_def Let_def numeral_3_eq_3)

lemma run_pair:
  "detect_anomalies (cutoff_library 500) g pair 0 (1 / 20) = (Inr 0, pair(0 := pair_done))"
  by (simp add: detect_anomalies_def pair_def pair_done_def store_of_def sales_def df_empty_def
      getitem_list_def getitem_def setitem_def cutoff_library_def Let_def numeral_2_eq_2)

lemma run_single:
  "detect_anomalies (cutoff_library 500) g single 0 (1 / 20) = (Inr 0, single(0 := single_done))"
  by (simp add: detect_anomalies_def single_def single_done_def store_of_def sales_def df_empty_def
      getitem_list_def getitem_def setitem_def cutoff_library_def Let_def)

lemma not_empty_three: "\<not> df_empty (three 0)"
  by (simp add: three_def store_of_def sales_def df_empty_def)

lemma ventes_three: "getitem ''ventes'' (three 0) = Inr [FloatV 100, FloatV 100, FloatV 1000]"
  by (simp add: three_def store_of_def sales_def getitem_def)

lemma scores_three: "scores_of (Inr 0, three(0 := three_done)) = [IntV 1, IntV 1, IntV (- 1)]"
  by (simp add: scores_of_def column_of_def getitem_def three_done_def)

lemma scores_pair: "scores_of (Inr 0, pair(0 := pair_done)) = [IntV 1, IntV 1]"
  by (simp add: scores_of_def column_of_def getitem_def pair_done_def)

section \<open>The empty dataset\<close>

text \<open>
  C6. For the empty dataset the detection operation raises no error and returns the
  dataset it was given, which is empty and which it leaves as it was.
\<close>

theorem empty_dataset_returned:
  "df_empty (h df) \<Longrightarrow> detect_anomalies lib g h df c = (Inr df, h)"
  by (simp add: detect_anomalies_def)

theorem empty_dataset_returned_witness:
  "df_empty (store_of (sales []) 0) \<and>
   detect_anomalies (cutoff_library 500) False (store_of (sales [])) 0 (1 / 20)
     = (Inr 0, store_of (sales []))"
  using empty_dataset_returned [of "store_of (sales [])" 0 "cutoff_library 500" False "1 / 20"]
  by (simp add: df_empty_def store_of_def sales_def)

section \<open>The two result columns\<close>

text \<open>
  C10. On a non-empty dataset on which detection succeeds, the returned frame has a column
  \<open>anomaly_score\<close> and a column \<open>anomaly\<close>, one cell per observation each; every
  score is the label \<open>-1\<close> or \<open>1\<close> that the library returned, and the flag of an
  observation is True exactly when its score is \<open>-1\<close>.
\<close>

theorem anomaly_columns_consistent:
  assumes "labels_pm_one lib" and "\<not> df_empty (h df)"
    and "detect_anomalies lib g h df c = (Inr r, h')"
  shows "\<exists>labels. getitem ''anomaly_score'' (h' r) = Inr (map IntV labels)
           \<and> getitem ''anomaly'' (h' r) = Inr (map (\<lambda>l. BoolV (l = - 1)) labels)
           \<and> length labels = nrows (h' r)
           \<and> (\<forall>l \<in> set labels. l = - 1 \<or> l = 1)"
proof -
  from detect_success [OF assms(2,3)] obtain v labels where
    lib: "lib g \<lparr>contamination = c, random_state = Some 42\<rparr>
            \<lparr>nrows = nrows (h df), cols = [(''ventes'', v)]\<rparr> = Inr labels"
    and len: "length labels = nrows (h df)"
    and r: "r = df" and h': "h' = h(df := annotate labels (h df))"
    by blast
  from assms(1) lib have "set labels \<subseteq> {- 1, 1}"
    unfolding labels_pm_one_def by blast
  then have "\<forall>l \<in> set labels. l = - 1 \<or> l = 1" by auto
  with len r h' show ?thesis
    by (auto simp: annotate_scores annotate_flags annotate_nrows intro!: exI [of _ labels])
qed

theorem anomaly_columns_consistent_witness:
  "labels_pm_one (cutoff_library 500) \<and> \<not> df_empty (three 0)
   \<and> detect_anomalies (cutoff_library 500) False three 0 (1 / 20) = (Inr 0, three(0 := three_done))
   \<and> (\<exists>labels. getitem ''anomaly_score'' ((three(0 := three_done)) 0) = Inr (map IntV labels)
           \<and> getitem ''anomaly'' ((three(0 := three_done)) 0)
               = Inr (map (\<lambda>l. BoolV (l = - 1)) labels)
           \<and> length labels = nrows ((three(0 := three_done)) 0)
           \<and> (\<forall>l \<in> set labels. l = - 1 \<or> l = 1))
   \<and> getitem ''anomaly_score'' ((three(0 := three_done)) 0) = Inr [IntV 1, IntV 1, IntV (- 1)]
   \<and> getitem ''anomaly'' ((three(0 := three_done)) 0) = Inr [BoolV False, BoolV False, BoolV True]"
proof -
  have a: "labels_pm_one (cutoff_library 500)" by (rule cutoff_library_labels)
  have c: "detect_anomalies (cutoff_library 500) False three 0 (1 / 20)
             = (Inr 0, three(0 := three_done))"
    by (rule run_three)
  have s: "getitem ''anomaly_score'' ((three(0 := three_done)) 0) = Inr [IntV 1, IntV 1, IntV (- 1)]"
    by (simp add: getitem_def three_done_def)
  have f: "getitem ''anomaly'' ((three(0 := three_done)) 0)
             = Inr [BoolV False, BoolV False, BoolV True]"
    by (simp add: getitem_def three_done_def)
  from anomaly_columns_consistent [OF a not_empty_three c] a not_empty_three c s f
  show ?thesis by blast
qed

section \<open>The scores\<close>

text \<open>
  C1, as the specification states it: every score lies in \<open>[0, 1]\<close>, and the scores of
  a dataset of two observations all equal \<open>0.5\<close>. The program stores the library's
  labels as scores: on two equal sales both scores are the integer \<open>1\<close>, and on three
  sales with one far above the others the score of that one is \<open>-1\<close>.
\<close>

theorem scores_unit_interval_counterexample:
  "scores_of (detect_anomalies (cutoff_library 500) False pair 0 (1 / 20)) = [IntV 1, IntV 1]
   \<and> \<not> list_all score_is_half (scores_of (detect_anomalies (cutoff_library 500) False pair 0 (1 / 20)))
   \<and> scores_of (detect_anomalies (cutoff_library 500) False three 0 (1 / 20))
       = [IntV 1, IntV 1, IntV (- 1)]
   \<and> \<not> list_all score_in_unit
          (scores_of (detect_anomalies (cutoff_library 500) False three 0 (1 / 20)))"
  by (simp add: run_pair run_three scores_pair scores_three score_is_half_def score_in_unit_def)

text \<open>
  C1, amended. On a non-empty dataset with a column \<open>ventes\<close> for which the library
  returns one label per observation, each \<open>-1\<close> or \<open>1\<close>, detection succeeds and
  there is one score per observation: the score of observation \<open>i\<close> is the label the
  library returned for it, the integer \<open>-1\<close> or \<open>1\<close>. No score equals \<open>0.5\<close>,
  whatever the size of the dataset. The flag of observation \<open>i\<close> is the test
  \<open>label == -1\<close>, so a flagged observation has the score \<open>-1\<close>, the lower of the two
  and outside \<open>[0, 1]\<close>.
\<close>

theorem scores_are_labels:
  assumes "labels_pm_one lib" and "\<not> df_empty (h df)"
    and "getitem ''ventes'' (h df) = Inr v"
    and "lib g \<lparr>contamination = c, random_state = Some 42\<rparr>
           \<lparr>nrows = nrows (h df), cols = [(''ventes'', v)]\<rparr> = Inr labels"
    and "length labels = nrows (h df)"
  shows "fst (detect_anomalies lib g h df c) = Inr df
         \<and> scores_of (detect_anomalies lib g h df c) = map IntV labels
         \<and> length (scores_of (detect_anomalies lib g h df c)) = nrows (h df)
         \<and> list_all is_label (scores_of (detect_anomalies lib g h df c))
         \<and> \<not> list_ex score_is_half (scores_of (detect_anomalies lib g h df c))
         \<and> flags_of (detect_anomalies lib g h df c) = map (\<lambda>l. BoolV (l = - 1)) labels
         \<and> (\<forall>i < nrows (h df).
               flags_of (detect_anomalies lib g h df c) ! i = BoolV True
               \<longrightarrow> scores_of (detect_anomalies lib g h df c) ! i = IntV (- 1)
                 \<and> \<not> score_in_unit (scores_of (detect_anomalies lib g h df c) ! i))"
proof -
  have run: "detect_anomalies lib g h df c = (Inr df, h(df := annotate labels (h df)))"
    by (rule detect_given_labels [where h = h and df = df and lib = lib and g = g, OF assms(2-5)])
  from assms(1,4) have pm: "set labels \<subseteq> {- 1, 1}"
    unfolding labels_pm_one_def by blast
  have 1: "list_all is_label (map IntV labels)"
    using pm by (auto simp: list_all_iff is_label_def)
  have 2: "\<not> list_ex score_is_half (map IntV labels)"
    using pm by (auto simp: list_ex_iff score_is_half_def)
  have 3: "\<forall>i < nrows (h df). map (\<lambda>l. BoolV (l = - 1)) labels ! i = BoolV True
             \<longrightarrow> map IntV labels ! i = IntV (- 1) \<and> \<not> score_in_unit (map IntV labels ! i)"
    using assms(5) by (simp add: minus_one_not_in_unit)
  show ?thesis
    unfolding run scores_of_annotate flags_of_annotate
    using 1 2 3 assms(5) by simp
qed


theorem scores_are_labels_witness:
  "labels_pm_one (cutoff_library 500) \<and> \<not> df_empty (three 0)
   \<and> getitem ''ventes'' (three 0) = Inr [FloatV 100, FloatV 100, FloatV 1000]
   \<and> cutoff_library 500 False \<lparr>contamination = 1 / 20, random_state = Some 42\<rparr>
        \<lparr>nrows = nrows (three 0), cols = [(''ventes'', [FloatV 100, FloatV 100, FloatV 1000])]\<rparr>
        = Inr [1, 1, - 1]
   \<and> length [1, 1, - 1 :: int] = nrows (three 0)
   \<and> fst (detect_anomalies (cutoff_library 500) False three 0 (1 / 20)) = Inr 0
   \<and> scores_of (detect_anomalies (cutoff_library 500) False three 0 (1 / 20))
        = [IntV 1, IntV 1, IntV (- 1)]
   \<and> flags_of (detect_anomalies (cutoff_library 500) False three 0 (1 / 20))
        = [BoolV False, BoolV False, BoolV True]
   \<and> scores_of (detect_anomalies (cutoff_library 500) False three 0 (1 / 20)) ! 2 = IntV (- 1)
   \<and> \<not> score_in_unit (scores_of (detect_anomalies (cutoff_library 500) False three 0 (1 / 20)) ! 2)
   \<and> \<not> list_ex score_is_half (scores_of (detect_anomalies (cutoff_library 500) False three 0 (1 / 20)))"
proof -
  have a: "labels_pm_one (cutoff_library 500)" by (rule cutoff_library_labels)
  have n: "nrows (three 0) = 3" by (simp add: three_def store_of_def sales_def)
  have l: "cutoff_library 500 False \<lparr>contamination = 1 / 20, random_state = Some 42\<rparr>
        \<lparr>nrows = nrows (three 0), cols = [(''ventes'', [FloatV 100, FloatV 100, FloatV 1000])]\<rparr>
        = Inr [1, 1, - 1]"
    by (simp add: cutoff_library_def)
  have k: "length [1, 1, - 1 :: int] = nrows (three 0)" by (simp add: n)
  from scores_are_labels [where h = three and df = 0 and lib = "cutoff_library 500" and g = False
      and c = "1 / 20", OF a not_empty_three ventes_three l k]
    a not_empty_three ventes_three l k
  show ?thesis by (simp add: n minus_one_not_in_unit score_is_half_def)
qed

section \<open>Length and order of the output\<close>

text \<open>
  C3. An empty frame is returned as it is. On a non-empty frame with a column \<open>ventes\<close>
  whose cells \<open>v\<close>, in the order of the input, get one label each from the library, the
  call succeeds and returns the frame it was given, with as many rows as before and the
  same sales column; there are as many scores and as many flags as rows, and the score and
  the flag at position \<open>i\<close> are those of the label the library returned at position
  \<open>i\<close>. Conversely every call that succeeds returns the frame it was given with the
  same number of rows, every column other than the two result columns as it was, and
  scores and flags that are, position by position, those of the labels the library
  returned for the sales column.
\<close>

theorem output_aligned_with_input:
  "(df_empty (h df) \<longrightarrow> detect_anomalies lib g h df c = (Inr df, h))
   \<and> (\<not> df_empty (h df) \<and> getitem ''ventes'' (h df) = Inr v
        \<and> lib g \<lparr>contamination = c, random_state = Some 42\<rparr>
              \<lparr>nrows = nrows (h df), cols = [(''ventes'', v)]\<rparr> = Inr labels
        \<and> length labels = nrows (h df)
      \<longrightarrow> fst (detect_anomalies lib g h df c) = Inr df
        \<and> nrows (snd (detect_anomalies lib g h df c) df) = nrows (h df)
        \<and> getitem ''ventes'' (snd (detect_anomalies lib g h df c) df) = Inr v
        \<and> scores_of (detect_anomalies lib g h df c) = map IntV labels
        \<and> flags_of (detect_anomalies lib g h df c) = map (\<lambda>l. BoolV (l = - 1)) labels
        \<and> length (scores_of (detect_anomalies lib g h df c)) = nrows (h df)
        \<and> length (flags_of (detect_anomalies lib g h df c)) = nrows (h df))
   \<and> (\<forall>r h'. detect_anomalies lib g h df c = (Inr r, h') \<longrightarrow>
        r = df \<and> nrows (h' r) = nrows (h df)
        \<and> (\<forall>name. name \<noteq> ''anomaly_score'' \<and> name \<noteq> ''anomaly''
               \<longrightarrow> map_of (cols (h' r)) name = map_of (cols (h df)) name)
        \<and> (\<not> df_empty (h df) \<longrightarrow>
              (\<exists>w ls. getitem ''ventes'' (h df) = Inr w
                 \<and> getitem ''ventes'' (h' r) = Inr w
                 \<and> lib g \<lparr>contamination = c, random_state = Some 42\<rparr>
                        \<lparr>nrows = nrows (h df), cols = [(''ventes'', w)]\<rparr> = Inr ls
                 \<and> length ls = nrows (h df)
                 \<and> scores_of (Inr r, h') = map IntV ls
                 \<and> flags_of (Inr r, h') = map (\<lambda>l. BoolV (l = - 1)) ls)))"
proof -
  have empty: "df_empty (h df) \<longrightarrow> detect_anomalies lib g h df c = (Inr df, h)"
    by (simp add: detect_anomalies_def)
  have given: "fst (detect_anomalies lib g h df c) = Inr df
        \<and> nrows (snd (detect_anomalies lib g h df c) df) = nrows (h df)
        \<and> getitem ''ventes'' (snd (detect_anomalies lib g h df c) df) = Inr v
        \<and> scores_of (detect_anomalies lib g h df c) = map IntV labels
        \<and> flags_of (detect_anomalies lib g h df c) = map (\<lambda>l. BoolV (l = - 1)) labels
        \<and> length (scores_of (detect_anomalies lib g h df c)) = nrows (h df)
        \<and> length (flags_of (detect_anomalies lib g h df c)) = nrows (h df)"
    if a: "\<not> df_empty (h df) \<and> getitem ''ventes'' (h df) = Inr v
        \<and> lib g \<lparr>contamination = c, random_state = Some 42\<rparr>
              \<lparr>nrows = nrows (h df), cols = [(''ventes'', v)]\<rparr> = Inr labels
        \<and> length labels = nrows (h df)"
  proof -
    from a have run: "detect_anomalies lib g h df c = (Inr df, h(df := annotate labels (h df)))"
      using detect_given_labels [where h = h and df = df and lib = lib and g = g and c = c
          and v = v and labels = labels]
      by blast
    from a have len: "length labels = nrows (h df)" and v: "getitem ''ventes'' (h df) = Inr v"
      by simp_all
    show ?thesis
      unfolding run scores_of_annotate flags_of_annotate
      by (simp add: annotate_nrows annotate_ventes v len)
  qed
  have ret: "r = df \<and> nrows (h' r) = nrows (h df)
        \<and> (\<forall>name. name \<noteq> ''anomaly_score'' \<and> name \<noteq> ''anomaly''
               \<longrightarrow> map_of (cols (h' r)) name = map_of (cols (h df)) name)
        \<and> (\<not> df_empty (h df) \<longrightarrow>
              (\<exists>w ls. getitem ''ventes'' (h df) = Inr w
                 \<and> getitem ''ventes'' (h' r) = Inr w
                 \<and> lib g \<lparr>contamination = c, random_state = Some 42\<rparr>
                        \<lparr>nrows = nrows (h df), cols = [(''ventes'', w)]\<rparr> = Inr ls
                 \<and> length ls = nrows (h df)
                 \<and> scores_of (Inr r, h') = map IntV ls
                 \<and> flags_of (Inr r, h') = map (\<lambda>l. BoolV (l = - 1)) ls))"
    if s: "detect_anomalies lib g h df c = (Inr r, h')" for r h'
  proof (cases "df_empty (h df)")
    case True
    with s show ?thesis by (simp add: detect_anomalies_def)
  next
    case False
    from detect_success [where h = h and df = df, OF False s] obtain w ls where
      w: "getitem ''ventes'' (h df) = Inr w"
      and lib: "lib g \<lparr>contamination = c, random_state = Some 42\<rparr>
              \<lparr>nrows = nrows (h df), cols = [(''ventes'', w)]\<rparr> = Inr ls"
      and len: "length ls = nrows (h df)"
      and r: "r = df" and h': "h' = h(df := annotate ls (h df))"
      by blast
    have "getitem ''ventes'' (h' r) = Inr w"
      by (simp add: r h' annotate_ventes w)
    moreover have "scores_of (Inr r, h') = map IntV ls"
      unfolding r h' by (rule scores_of_annotate)
    moreover have "flags_of (Inr r, h') = map (\<lambda>l. BoolV (l = - 1)) ls"
      unfolding r h' by (rule flags_of_annotate)
    moreover have "nrows (h' r) = nrows (h df)"
      by (simp add: r h' annotate_nrows)
    moreover have "\<forall>name. name \<noteq> ''anomaly_score'' \<and> name \<noteq> ''anomaly''
                 \<longrightarrow> map_of (cols (h' r)) name = map_of (cols (h df)) name"
      by (simp add: r h' annotate_other)
    ultimately show ?thesis using w lib len r by blast
  qed
  from empty given ret show ?thesis by blast
qed

theorem output_aligned_with_input_witness:
  "\<not> df_empty (three 0)
   \<and> getitem ''ventes'' (three 0) = Inr [FloatV 100, FloatV 100, FloatV 1000]
   \<and> cutoff_library 500 False \<lparr>contamination = 1 / 20, random_state = Some 42\<rparr>
        \<lparr>nrows = nrows (three 0), cols = [(''ventes'', [FloatV 100, FloatV 100, FloatV 1000])]\<rparr>
        = Inr [1, 1, - 1]
   \<and> length [1, 1, - 1 :: int] = nrows (three 0)
   \<and> fst (detect_anomalies (cutoff_library 500) False three 0 (1 / 20)) = Inr 0
   \<and> nrows (snd (detect_anomalies (cutoff_library 500) False three 0 (1 / 20)) 0) = nrows (three 0)
   \<and> getitem ''ventes'' (snd (detect_anomalies (cutoff_library 500) False three 0 (1 / 20)) 0)
        = Inr [FloatV 100, FloatV 100, FloatV 1000]
   \<and> scores_of (detect_anomalies (cutoff_library 500) False three 0 (1 / 20))
        = [IntV 1, IntV 1, IntV (- 1)]
   \<and> flags_of (detect_anomalies (cutoff_library 500) False three 0 (1 / 20))
        = [BoolV False, BoolV False, BoolV True]
   \<and> length (scores_of (detect_anomalies (cutoff_library 500) False three 0 (1 / 20))) = 3"
proof -
  have n: "nrows (three 0) = 3" by (simp add: three_def store_of_def sales_def)
  have l: "cutoff_library 500 False \<lparr>contamination = 1 / 20, random_state = Some 42\<rparr>
        \<lparr>nrows = nrows (three 0), cols = [(''ventes'', [FloatV 100, FloatV 100, FloatV 1000])]\<rparr>
        = Inr [1, 1, - 1]"
    by (simp add: cutoff_library_def)
  have k: "length [1, 1, - 1 :: int] = nrows (three 0)" by (simp add: n)
  from output_aligned_with_input [where h = three and df = 0 and lib = "cutoff_library 500"
      and g = False and c = "1 / 20" and v = "[FloatV 100, FloatV 100, FloatV 1000]"
      and labels = "[1, 1, - 1]"]
    not_empty_three ventes_three l k
  show ?thesis by (simp add: n)
qed

section \<open>The caller's dataset\<close>

text \<open>
  C4, as the specification states it: the caller's dataset has the same values and the
  same columns after the call. The program assigns its two columns to the frame it was
  given: the store holds a frame with three columns where it held one.
\<close>

theorem input_unchanged_counterexample:
  "map fst (cols (three 0)) = [''ventes'']
   \<and> map fst (cols (snd (detect_anomalies (cutoff_library 500) False three 0 (1 / 20)) 0))
       = [''ventes'', ''anomaly_score'', ''anomaly'']
   \<and> snd (detect_anomalies (cutoff_library 500) False three 0 (1 / 20)) 0 \<noteq> three 0"
  unfolding run_three by (simp add: three_done_def three_def store_of_def sales_def)

text \<open>
  C4, amended. A call changes nothing but the frame it is given, and of that frame nothing
  but the columns \<open>anomaly_score\<close> and \<open>anomaly\<close>: the number of rows and every other
  column stay. An empty frame is returned as it was, and the frame of a call that raises
  is left as it was. On a non-empty frame for which the library returns one label per row
  the call succeeds, and every successful call on a non-empty frame leaves the caller's
  frame with the two columns holding the library's labels and the tests
  \<open>label == -1\<close>. With a library whose seeded models do not consult the ambient random
  state, running the program again on the store the first run left, under any ambient
  state, gives the same outcome and leaves that store as it is.
\<close>

theorem input_changed_in_result_columns_only:
  assumes "detect_anomalies lib g h df c = (out, h')"
  shows "(\<forall>r. r \<noteq> df \<longrightarrow> h' r = h r)
         \<and> nrows (h' df) = nrows (h df)
         \<and> (\<forall>name. name \<noteq> ''anomaly_score'' \<and> name \<noteq> ''anomaly''
               \<longrightarrow> map_of (cols (h' df)) name = map_of (cols (h df)) name)
         \<and> (df_empty (h df) \<longrightarrow> out = Inr df \<and> h' = h)
         \<and> (\<forall>e. out = Inl e \<longrightarrow> h' = h)
         \<and> (\<not> df_empty (h df) \<and> getitem ''ventes'' (h df) = Inr v
              \<and> lib g \<lparr>contamination = c, random_state = Some 42\<rparr>
                    \<lparr>nrows = nrows (h df), cols = [(''ventes'', v)]\<rparr> = Inr labels
              \<and> length labels = nrows (h df)
            \<longrightarrow> out = Inr df
              \<and> getitem ''anomaly_score'' (h' df) = Inr (map IntV labels)
              \<and> getitem ''anomaly'' (h' df) = Inr (map (\<lambda>l. BoolV (l = - 1)) labels))
         \<and> (\<forall>r. out = Inr r \<and> \<not> df_empty (h df) \<longrightarrow>
              (\<exists>w ls. getitem ''ventes'' (h df) = Inr w
                 \<and> lib g \<lparr>contamination = c, random_state = Some 42\<rparr>
                       \<lparr>nrows = nrows (h df), cols = [(''ventes'', w)]\<rparr> = Inr ls
                 \<and> getitem ''anomaly_score'' (h' df) = Inr (map IntV ls)
                 \<and> getitem ''anomaly'' (h' df) = Inr (map (\<lambda>l. BoolV (l = - 1)) ls)))
         \<and> (seeded_deterministic lib \<longrightarrow> detect_anomalies lib g' h' df c = (out, h'))"
proof -
  have amb: "detect_anomalies lib g' H df c = detect_anomalies lib g H df c"
    if sd: "seeded_deterministic lib" for H
    unfolding detect_anomalies_def Let_def
      seeded_library_eq [OF sd, where g = g' and g' = g and c = c and s = 42]
    by (rule refl)
  have given: "out = Inr df
              \<and> getitem ''anomaly_score'' (h' df) = Inr (map IntV labels)
              \<and> getitem ''anomaly'' (h' df) = Inr (map (\<lambda>l. BoolV (l = - 1)) labels)"
    if a: "\<not> df_empty (h df) \<and> getitem ''ventes'' (h df) = Inr v
              \<and> lib g \<lparr>contamination = c, random_state = Some 42\<rparr>
                    \<lparr>nrows = nrows (h df), cols = [(''ventes'', v)]\<rparr> = Inr labels
              \<and> length labels = nrows (h df)"
  proof -
    from a have "detect_anomalies lib g h df c = (Inr df, h(df := annotate labels (h df)))"
      using detect_given_labels [where h = h and df = df and lib = lib and g = g and c = c
          and v = v and labels = labels]
      by blast
    with assms have "out = Inr df" and "h' = h(df := annotate labels (h df))" by simp_all
    then show ?thesis by (simp add: annotate_scores annotate_flags)
  qed
  show ?thesis
  proof (cases "df_empty (h df)")
    case True
    with assms have "out = Inr df" and "h' = h" by (simp_all add: detect_anomalies_def)
    with True assms amb show ?thesis by simp
  next
    case False
    show ?thesis
    proof (cases out)
      case (Inl e)
      with assms have same: "h' = h" by (simp add: detect_failure)
      have 6: "\<not> (\<not> df_empty (h df) \<and> getitem ''ventes'' (h df) = Inr v
              \<and> lib g \<lparr>contamination = c, random_state = Some 42\<rparr>
                    \<lparr>nrows = nrows (h df), cols = [(''ventes'', v)]\<rparr> = Inr labels
              \<and> length labels = nrows (h df))"
        using given Inl by blast
      have 8: "seeded_deterministic lib \<longrightarrow> detect_anomalies lib g' h' df c = (out, h')"
        using amb assms same by simp
      from same Inl False 6 8 show ?thesis by simp
    next
      case (Inr r)
      from detect_success [where h = h and df = df, OF False assms [unfolded Inr]]
      obtain w ls where
        w: "getitem ''ventes'' (h df) = Inr w"
        and lib: "lib g \<lparr>contamination = c, random_state = Some 42\<rparr>
              \<lparr>nrows = nrows (h df), cols = [(''ventes'', w)]\<rparr> = Inr ls"
        and len: "length ls = nrows (h df)"
        and r: "r = df" and h': "h' = h(df := annotate ls (h df))"
        by blast
      have ne: "\<not> df_empty (h' df)" using False by (simp add: h' annotate_not_empty)
      have again: "detect_anomalies lib g h' df c = (out, h')"
        unfolding detect_nonempty [of h' df, OF ne] getitem_list_ventes
        by (simp add: h' annotate_ventes w annotate_nrows lib len annotate_idem Inr r)
      have cols: "\<exists>w ls. getitem ''ventes'' (h df) = Inr w
                 \<and> lib g \<lparr>contamination = c, random_state = Some 42\<rparr>
                       \<lparr>nrows = nrows (h df), cols = [(''ventes'', w)]\<rparr> = Inr ls
                 \<and> getitem ''anomaly_score'' (h' df) = Inr (map IntV ls)
                 \<and> getitem ''anomaly'' (h' df) = Inr (map (\<lambda>l. BoolV (l = - 1)) ls)"
        using w lib by (auto simp: h' annotate_scores annotate_flags)
      have 1: "\<forall>r. r \<noteq> df \<longrightarrow> h' r = h r" by (simp add: h')
      have 2: "nrows (h' df) = nrows (h df)" by (simp add: h' annotate_nrows)
      have 3: "\<forall>name. name \<noteq> ''anomaly_score'' \<and> name \<noteq> ''anomaly''
               \<longrightarrow> map_of (cols (h' df)) name = map_of (cols (h df)) name"
        by (simp add: h' annotate_other)
      have 8: "seeded_deterministic lib \<longrightarrow> detect_anomalies lib g' h' df c = (out, h')"
        using amb again by simp
      from 1 2 3 False Inr given cols 8 show ?thesis by blast
    qed
  qed
qed

theorem input_changed_in_result_columns_only_witness:
  "detect_anomalies (cutoff_library 500) False three 0 (1 / 20) = (Inr 0, three(0 := three_done))
   \<and> \<not> df_empty (three 0)
   \<and> seeded_deterministic (cutoff_library 500)
   \<and> (three(0 := three_done)) 1 = three 1
   \<and> nrows ((three(0 := three_done)) 0) = nrows (three 0)
   \<and> map_of (cols ((three(0 := three_done)) 0)) ''ventes'' = map_of (cols (three 0)) ''ventes''
   \<and> getitem ''anomaly_score'' ((three(0 := three_done)) 0) = Inr [IntV 1, IntV 1, IntV (- 1)]
   \<and> getitem ''anomaly'' ((three(0 := three_done)) 0) = Inr [BoolV False, BoolV False, BoolV True]
   \<and> detect_anomalies (cutoff_library 500) True (three(0 := three_done)) 0 (1 / 20)
        = (Inr 0, three(0 := three_done))"
proof -
  have c: "detect_anomalies (cutoff_library 500) False three 0 (1 / 20)
             = (Inr 0, three(0 := three_done))"
    by (rule run_three)
  have n: "nrows (three 0) = 3" by (simp add: three_def store_of_def sales_def)
  have l: "cutoff_library 500 False \<lparr>contamination = 1 / 20, random_state = Some 42\<rparr>
        \<lparr>nrows = nrows (three 0), cols = [(''ventes'', [FloatV 100, FloatV 100, FloatV 1000])]\<rparr>
        = Inr [1, 1, - 1]"
    by (simp add: cutoff_library_def)
  have k: "length [1, 1, - 1 :: int] = nrows (three 0)" by (simp add: n)
  from input_changed_in_result_columns_only [where g' = True
      and v = "[FloatV 100, FloatV 100, FloatV 1000]" and labels = "[1, 1, - 1]", OF c]
    c not_empty_three ventes_three l k cutoff_library_seeded [of 500]
  show ?thesis by simp
qed

section \<open>Repeated runs\<close>

text \<open>
  C5. The program always seeds the model (\<open>random_state=42\<close>, line 16). With a library
  whose seeded models do not consult the ambient random state, two runs on the same
  dataset and contamination give the same outcome and the same store, whatever the
  ambient state of each run: all scores and all flags agree.
\<close>

theorem seeded_runs_agree:
  assumes "seeded_deterministic lib"
  shows "detect_anomalies lib g h df c = detect_anomalies lib g' h df c"
proof -
  have eq: "lib g \<lparr>contamination = c, random_state = Some 42\<rparr>
        = lib g' \<lparr>contamination = c, random_state = Some 42\<rparr>"
    using assms unfolding seeded_deterministic_def by (intro ext) blast
  show ?thesis unfolding detect_anomalies_def Let_def eq by (rule refl)
qed

theorem seeded_runs_agree_witness:
  "seeded_deterministic (cutoff_library 500)
   \<and> detect_anomalies (cutoff_library 500) False three 0 (1 / 20)
       = detect_anomalies (cutoff_library 500) True three 0 (1 / 20)"
  using seeded_runs_agree [OF cutoff_library_seeded, of 500 False three 0 "1 / 20" True]
    cutoff_library_seeded [of 500]
  by simp

section \<open>A single observation\<close>

text \<open>
  C7, as the specification states it: a dataset of one observation makes the operation
  fail. The program has no check of the size: the one sales value goes to the library, and
  with the label \<open>1\<close> that comes back the call returns the frame, one row long.
\<close>

theorem single_observation_counterexample:
  "nrows (single 0) = 1
   \<and> detect_anomalies (cutoff_library 500) False single 0 (1 / 20)
       = (Inr 0, single(0 := single_done))"
  by (simp add: run_single) (simp add: single_def store_of_def sales_def)

text \<open>
  C7, amended. On a dataset of exactly one observation with a column \<open>ventes\<close>, the
  outcome is the library's: when the library raises, the call fails with that exception
  and the frame is untouched; when the library returns one label, the call succeeds, and
  the score is that label and the flag the test \<open>label == -1\<close>.
\<close>

theorem single_observation_outcome:
  assumes "nrows (h df) = 1" and "getitem ''ventes'' (h df) = Inr v"
  shows "(\<forall>e. lib g \<lparr>contamination = c, random_state = Some 42\<rparr>
                 \<lparr>nrows = 1, cols = [(''ventes'', v)]\<rparr> = Inl e
            \<longrightarrow> detect_anomalies lib g h df c = (Inl e, h))
       \<and> (\<forall>l. lib g \<lparr>contamination = c, random_state = Some 42\<rparr>
                 \<lparr>nrows = 1, cols = [(''ventes'', v)]\<rparr> = Inr [l]
            \<longrightarrow> fst (detect_anomalies lib g h df c) = Inr df
              \<and> scores_of (detect_anomalies lib g h df c) = [IntV l]
              \<and> flags_of (detect_anomalies lib g h df c) = [BoolV (l = - 1)])"
proof -
  have ne: "\<not> df_empty (h df)"
    using assms by (auto simp: df_empty_def getitem_def)
  show ?thesis
    unfolding detect_nonempty [of h df, OF ne] getitem_list_ventes
    by (simp add: assms scores_of_def flags_of_def column_of_def annotate_scores annotate_flags)
qed

theorem single_observation_outcome_witness:
  "nrows (single 0) = 1 \<and> getitem ''ventes'' (single 0) = Inr [FloatV 100]
   \<and> cutoff_library 500 False \<lparr>contamination = 1 / 20, random_state = Some 42\<rparr>
        \<lparr>nrows = 1, cols = [(''ventes'', [FloatV 100])]\<rparr> = Inr [1]
   \<and> fst (detect_anomalies (cutoff_library 500) False single 0 (1 / 20)) = Inr 0
   \<and> scores_of (detect_anomalies (cutoff_library 500) False single 0 (1 / 20)) = [IntV 1]
   \<and> flags_of (detect_anomalies (cutoff_library 500) False single 0 (1 / 20)) = [BoolV False]"
proof -
  have a: "nrows (single 0) = 1" by (simp add: single_def store_of_def sales_def)
  have b: "getitem ''ventes'' (single 0) = Inr [FloatV 100]"
    by (simp add: single_def store_of_def sales_def getitem_def)
  have l: "cutoff_library 500 False \<lparr>contamination = 1 / 20, random_state = Some 42\<rparr>
        \<lparr>nrows = 1, cols = [(''ventes'', [FloatV 100])]\<rparr> = Inr [1]"
    by (simp add: cutoff_library_def)
  from single_observation_outcome [where h = single and df = 0 and lib = "cutoff_library 500"
      and g = False and c = "1 / 20", OF a b] a b l
  show ?thesis by simp
qed

section \<open>The contamination parameter\<close>

text \<open>
  C8, as the specification states it: every contamination outside \<open>(0, 0.5]\<close> makes
  the operation fail. On an empty dataset the program returns before the model is built:
  with contamination \<open>0.6\<close>, which the library would reject, the call returns the
  dataset and raises nothing.
\<close>

theorem invalid_contamination_counterexample:
  "\<not> (0 < (3 / 5 :: real) \<and> (3 / 5 :: real) \<le> 1 / 2)
   \<and> cutoff_library 500 False \<lparr>contamination = 3 / 5, random_state = Some 42\<rparr> (sales [])
       = Inl InvalidParameterError
   \<and> detect_anomalies (cutoff_library 500) False (store_of (sales [])) 0 (3 / 5)
       = (Inr 0, store_of (sales []))"
  by (simp add: cutoff_library_def detect_anomalies_def df_empty_def store_of_def sales_def)

text \<open>
  C8, amended. With a library that validates the contamination when it fits, and a
  contamination outside \<open>(0, 0.5]\<close>: on a non-empty dataset with a column \<open>ventes\<close>
  the call fails with InvalidParameterError and the store is as it was before the call; on
  an empty dataset the contamination is never examined, and the call returns the dataset
  and raises nothing.
\<close>

theorem invalid_contamination_rejected:
  assumes "validates_contamination lib" and "\<not> (0 < c \<and> c \<le> 1 / 2)"
  shows "(\<not> df_empty (h df) \<and> getitem ''ventes'' (h df) = Inr v
            \<longrightarrow> detect_anomalies lib g h df c = (Inl InvalidParameterError, h))
       \<and> (df_empty (h df) \<longrightarrow> detect_anomalies lib g h df c = (Inr df, h))"
proof (intro conjI impI)
  assume a: "\<not> df_empty (h df) \<and> getitem ''ventes'' (h df) = Inr v"
  have "lib g \<lparr>contamination = c, random_state = Some 42\<rparr> X = Inl InvalidParameterError" for X
    using assms(1,2) unfolding validates_contamination_def by simp
  with a show "detect_anomalies lib g h df c = (Inl InvalidParameterError, h)"
    using detect_nonempty [of h df lib g c] by (simp add: getitem_list_ventes)
next
  assume "df_empty (h df)"
  then show "detect_anomalies lib g h df c = (Inr df, h)"
    by (simp add: detect_anomalies_def)
qed

theorem invalid_contamination_rejected_witness:
  "validates_contamination (cutoff_library 500)
   \<and> \<not> (0 < (3 / 5 :: real) \<and> (3 / 5 :: real) \<le> 1 / 2)
   \<and> \<not> df_empty (three 0)
   \<and> getitem ''ventes'' (three 0) = Inr [FloatV 100, FloatV 100, FloatV 1000]
   \<and> detect_anomalies (cutoff_library 500) False three 0 (3 / 5) = (Inl InvalidParameterError, three)
   \<and> df_empty (store_of (sales []) 0)
   \<and> detect_anomalies (cutoff_library 500) False (store_of (sales [])) 0 (3 / 5)
       = (Inr 0, store_of (sales []))"
proof -
  have a: "validates_contamination (cutoff_library 500)" by (rule cutoff_library_validates)
  have b: "\<not> (0 < (3 / 5 :: real) \<and> (3 / 5 :: real) \<le> 1 / 2)" by simp
  have e: "df_empty (store_of (sales []) 0)" by (simp add: df_empty_def store_of_def sales_def)
  from invalid_contamination_rejected [where h = three and df = 0 and g = False
      and v = "[FloatV 100, FloatV 100, FloatV 1000]", OF a b]
    invalid_contamination_rejected [where h = "store_of (sales [])" and df = 0 and g = False
      and v = "[]", OF a b]
    a b e not_empty_three ventes_three
  show ?thesis by simp
qed

end
